theory Spec2Isabelle
  imports Main "HOL-Library.Char_ord" "HOL-Library.List_Lexorder" "HOL-Library.Product_Lexorder"
begin

section \<open>The device store of the Redis infrastructure layer (device.go)\<close>

text \<open>
  The file \<^verbatim>\<open>internal/pkg/v2/infrastructure/redis/device.go\<close> keeps device records in Redis:
  one string key per device plus five kinds of index keys. This theory embeds its
  functions as HOL functions over an explicit connection state, and proves what the
  functions put on the connection, what they return and what they leave alone.
\<close>

subsection \<open>Data: the device record, errors, Redis commands\<close>

type_synonym bytes = string

text \<open>
  \<^verbatim>\<open>models.Device\<close>: the fields device.go reads or writes. \<^verbatim>\<open>Id\<close> is spelt \<open>Id'\<close> because
  \<open>Id\<close> is the identity relation of HOL. \<^verbatim>\<open>Created\<close> and \<^verbatim>\<open>Modified\<close> are int64 milliseconds.
\<close>

record Device =
  Id' :: string
  Name :: string
  ServiceName :: string
  ProfileName :: string
  Labels :: "string list"
  Created :: int
  Modified :: int

text \<open>The zero value \<^verbatim>\<open>models.Device{}\<close>.\<close>

definition zeroDevice :: Device where
  "zeroDevice = \<lparr>Id' = [], Name = [], ServiceName = [], ProfileName = [], Labels = [],
     Created = 0, Modified = 0\<rparr>"

text \<open>
  The error kinds of the errors package that device.go names, the kind a lookup helper
  reports for an absent record, and \<open>KindUnknown\<close>, the kind of an error that carries none.
\<close>

datatype ErrKind =
  KindUnknown | KindDatabaseError | KindEntityDoesNotExist | KindContractInvalid | KindDuplicateName

text \<open>
  An error is a plain Go \<^verbatim>\<open>error\<close> (from the Redis client or the JSON codec) or a
  \<^verbatim>\<open>CommonEdgeX\<close> with its kind, its message and the error it wraps.
\<close>

datatype error = PlainError string | CommonEdgeX ErrKind string "error option"

text \<open>
  Modelled from the spec: the errors package is not among the sources. Section 7 says that
  errors from lower layers are wrapped, preserving the original cause; \<open>Kind\<close> is the first
  kind other than \<open>KindUnknown\<close> on the way down the chain of causes, and a wrapper made by
  \<open>NewCommonEdgeXWrapper\<close> takes the kind of what it wraps and has no message of its own.
\<close>

fun Kind :: "error \<Rightarrow> ErrKind" where
  "Kind (PlainError m) = KindUnknown"
| "Kind (CommonEdgeX k m None) = k"
| "Kind (CommonEdgeX k m (Some w)) = (if k = KindUnknown then Kind w else k)"

text \<open>
  Modelled from the spec: \<^verbatim>\<open>errors.NewCommonEdgeX\<close> is not among the sources; it builds the
  error from the kind, the message and the wrapped cause it is given (section 7).
\<close>

definition NewCommonEdgeX :: "ErrKind \<Rightarrow> string \<Rightarrow> error option \<Rightarrow> error" where
  "NewCommonEdgeX k m w = CommonEdgeX k m w"

text \<open>
  Modelled from the spec: \<^verbatim>\<open>errors.NewCommonEdgeXWrapper\<close> is not among the sources; it
  wraps a lower layer's error, preserving it as the cause and carrying its kind (section 7).
\<close>

definition NewCommonEdgeXWrapper :: "error \<Rightarrow> error" where
  "NewCommonEdgeXWrapper w = CommonEdgeX (Kind w) [] (Some w)"

text \<open>
  The error kinds section 7 of the specification lists, and the kind of the errors package
  each one names. None of the kinds device.go uses stands for \<open>DuplicateId\<close>.
\<close>

datatype SpecErrorKind = DuplicateId | DuplicateName | NotFound | ContractInvalid | DatabaseError

fun specKind :: "ErrKind \<Rightarrow> SpecErrorKind option" where
  "specKind KindDuplicateName = Some DuplicateName"
| "specKind KindEntityDoesNotExist = Some NotFound"
| "specKind KindContractInvalid = Some ContractInvalid"
| "specKind KindDatabaseError = Some DatabaseError"
| "specKind KindUnknown = None"

text \<open>
  The Redis commands device.go sends, with their arguments in the order of the call:
  \<open>ZADD key score member\<close>, \<open>HSET key field value\<close>. Scores are the int64 timestamps.
\<close>

datatype Command =
  MULTI | EXEC
  | SET string bytes
  | ZADD string int string
  | HSET string string string
  | DEL string
  | ZREM string string
  | HDEL string string

text \<open>The range command handed to the label query helper.\<close>

datatype RangeCommand = ZRANGE | ZREVRANGE

subsection \<open>The substrate: a Redis keyspace behind a buffering connection\<close>

text \<open>
  Modelled from the spec: the key-value store is an external service (section 6) with scalar
  get/set/delete, ordered sets, hashes and an atomic multi-command batch. A key holds one
  value: a string, an ordered set (member and score, one entry per member) or a hash
  (field and value, one entry per field). A command on a key of another type is refused
  and changes nothing; \<open>SET\<close> and \<open>DEL\<close> work on any key; an ordered set or hash that loses
  its last entry is removed.
\<close>

datatype Value = Str bytes | ZSet "(string \<times> int) list" | Hash "(string \<times> string) list"

type_synonym Store = "string \<Rightarrow> Value option"

definition adel :: "'k \<Rightarrow> ('k \<times> 'v) list \<Rightarrow> ('k \<times> 'v) list" where
  "adel k xs = filter (\<lambda>p. fst p \<noteq> k) xs"

definition aput :: "'k \<Rightarrow> 'v \<Rightarrow> ('k \<times> 'v) list \<Rightarrow> ('k \<times> 'v) list" where
  "aput k v xs = (k, v) # adel k xs"

text \<open>
  Modelled from the spec: the effect of one command on the keyspace, the store being the
  external service of section 6.
\<close>

fun runCommand :: "Command \<Rightarrow> Store \<Rightarrow> Store" where
  "runCommand (SET k v) s = s(k \<mapsto> Str v)"
| "runCommand (DEL k) s = s(k := None)"
| "runCommand (ZADD k score m) s =
     (case s k of
        None \<Rightarrow> s(k \<mapsto> ZSet [(m, score)])
      | Some (ZSet z) \<Rightarrow> s(k \<mapsto> ZSet (aput m score z))
      | Some other \<Rightarrow> s)"
| "runCommand (ZREM k m) s =
     (case s k of
        Some (ZSet z) \<Rightarrow> (if adel m z = [] then s(k := None) else s(k \<mapsto> ZSet (adel m z)))
      | other \<Rightarrow> s)"
| "runCommand (HSET k f v) s =
     (case s k of
        None \<Rightarrow> s(k \<mapsto> Hash [(f, v)])
      | Some (Hash h) \<Rightarrow> s(k \<mapsto> Hash (aput f v h))
      | Some other \<Rightarrow> s)"
| "runCommand (HDEL k f) s =
     (case s k of
        Some (Hash h) \<Rightarrow> (if adel f h = [] then s(k := None) else s(k \<mapsto> Hash (adel f h)))
      | other \<Rightarrow> s)"
| "runCommand MULTI s = s"
| "runCommand EXEC s = s"

text \<open>
  Modelled from the spec: the atomic multi-command batch of section 6 (queue commands, then
  commit). The server side of a transaction: \<open>MULTI\<close> opens a queue, commands are queued while it is
  open, \<open>EXEC\<close> runs the queue in order and closes it. The state is the keyspace and the
  open queue, if any.
\<close>

fun server :: "Store \<times> Command list option \<Rightarrow> Command \<Rightarrow> Store \<times> Command list option" where
  "server (s, None) MULTI = (s, Some [])"
| "server (s, Some q) MULTI = (s, Some q)"
| "server (s, None) EXEC = (s, None)"
| "server (s, Some q) EXEC = (foldl (\<lambda>t c. runCommand c t) s q, None)"
| "server (s, None) c = (runCommand c s, None)"
| "server (s, Some q) c = (s, Some (q @ [c]))"

text \<open>
  Modelled from the spec: the connection to the external store, \<^verbatim>\<open>redis.Conn\<close>, whose
  client library is not among the sources. \<open>db\<close> is the server's keyspace and \<open>multi\<close> its open
  transaction; \<open>outbuf\<close> holds what \<open>Send\<close> has buffered; \<open>sent\<close> logs every command handed
  to \<open>Send\<close> or \<open>Do\<close>, in order; \<open>down\<close> says that the server cannot be reached.
  \<open>Send\<close> only buffers. \<open>Do\<close> flushes the buffer and its own command to the server and
  returns an error, with the keyspace untouched, when the server cannot be reached.
\<close>

record Conn =
  db :: Store
  multi :: "Command list option"
  outbuf :: "Command list"
  sent :: "Command list"
  down :: bool

definition Send :: "Conn \<Rightarrow> Command \<Rightarrow> Conn" where
  "Send conn c = conn\<lparr>outbuf := outbuf conn @ [c], sent := sent conn @ [c]\<rparr>"

definition Do :: "Conn \<Rightarrow> Command \<Rightarrow> Conn \<times> error option" where
  "Do conn c =
     (if down conn
      then (conn\<lparr>outbuf := [], sent := sent conn @ [c]\<rparr>, Some (PlainError ''redis: connection failed''))
      else (let st = foldl server (db conn, multi conn) (outbuf conn @ [c])
            in (conn\<lparr>db := fst st, multi := snd st, outbuf := [], sent := sent conn @ [c]\<rparr>, None)))"

subsection \<open>What device.go calls and the sources do not hold\<close>

text \<open>
  The clock, the JSON codec and the query helpers of the package are parameters of the
  embedding; each returns Go's pair of a value and an error. A helper with an out
  parameter (\<^verbatim>\<open>getObjectById(conn, key, &device)\<close>) returns what it left there; every call
  in device.go starts from the zero value. The helpers read the connection and do not
  change it (section 4.1: pure read checks).
\<close>

record Env =
  MakeTimestamp :: int
  json_Marshal :: "Device \<Rightarrow> bytes \<times> error option"
  json_Unmarshal :: "bytes \<Rightarrow> Device \<times> error option"
  objectIdExists :: "Conn \<Rightarrow> string \<Rightarrow> bool \<times> error option"
  objectNameExists :: "Conn \<Rightarrow> string \<Rightarrow> string \<Rightarrow> bool \<times> error option"
  getObjectById :: "Conn \<Rightarrow> string \<Rightarrow> Device \<times> error option"
  getObjectByHash :: "Conn \<Rightarrow> string \<Rightarrow> string \<Rightarrow> Device \<times> error option"
  getObjectsByRevRange :: "Conn \<Rightarrow> string \<Rightarrow> int \<Rightarrow> int \<Rightarrow> bytes list \<times> error option"
  getObjectsByLabelsAndSomeRange ::
    "Conn \<Rightarrow> RangeCommand \<Rightarrow> string \<Rightarrow> string list \<Rightarrow> int \<Rightarrow> int \<Rightarrow> bytes list \<times> error option"

text \<open>
  Modelled from the spec: \<^verbatim>\<open>DBKeySeparator\<close>, \<^verbatim>\<open>CreateKey\<close> and the words \<^verbatim>\<open>v2.Name\<close>,
  \<^verbatim>\<open>v2.Label\<close>, \<^verbatim>\<open>v2.Service\<close>, \<^verbatim>\<open>v2.Profile\<close> are not among the sources. Section 6 gives
  the layout they produce: the parts of a key are joined by a colon, and the words are
  \<open>name\<close>, \<open>label\<close>, \<open>service\<close> and \<open>profile\<close>.
\<close>

definition DBKeySeparator :: string where
  "DBKeySeparator = '':''"

definition v2_Name :: string where "v2_Name = ''name''"
definition v2_Label :: string where "v2_Label = ''label''"
definition v2_Service :: string where "v2_Service = ''service''"
definition v2_Profile :: string where "v2_Profile = ''profile''"

text \<open>
  Modelled from the spec: \<^verbatim>\<open>CreateKey\<close> joins its arguments with the separator, as the keys
  of section 6 are built.
\<close>

fun CreateKey :: "string list \<Rightarrow> string" where
  "CreateKey [] = []"
| "CreateKey [t] = t"
| "CreateKey (t # u # ts) = t @ DBKeySeparator @ CreateKey (u # ts)"

text \<open>
  Go's \<^verbatim>\<open>int\<close> is 64 bits wide on the platforms the service runs on; \<open>goInt\<close> is the value an
  arithmetic result wraps to.
\<close>

definition goInt :: "int \<Rightarrow> int" where
  "goInt x = (x + 2 ^ 63) mod 2 ^ 64 - 2 ^ 63"

subsection \<open>device.go\<close>

definition DeviceCollection :: string where
  "DeviceCollection = ''md|dv''"

definition DeviceCollectionName :: string where
  "DeviceCollectionName = DeviceCollection @ DBKeySeparator @ v2_Name"

definition DeviceCollectionLabel :: string where
  "DeviceCollectionLabel = DeviceCollection @ DBKeySeparator @ v2_Label"

definition DeviceCollectionServiceName :: string where
  "DeviceCollectionServiceName =
     DeviceCollection @ DBKeySeparator @ v2_Service @ DBKeySeparator @ v2_Name"

definition DeviceCollectionProfileName :: string where
  "DeviceCollectionProfileName =
     DeviceCollection @ DBKeySeparator @ v2_Profile @ DBKeySeparator @ v2_Name"

definition deviceStoredKey :: "string \<Rightarrow> string" where
  "deviceStoredKey ident = CreateKey [DeviceCollection, ident]"

definition deviceNameExists :: "Env \<Rightarrow> Conn \<Rightarrow> string \<Rightarrow> bool \<times> error option" where
  "deviceNameExists e conn name =
     (let (exists, err) = objectNameExists e conn DeviceCollectionName name
      in case err of
           Some x \<Rightarrow> (False, Some (NewCommonEdgeX KindDatabaseError
                        ''device existence check by name failed'' (Some x)))
         | None \<Rightarrow> (exists, None))"

definition deviceIdExists :: "Env \<Rightarrow> Conn \<Rightarrow> string \<Rightarrow> bool \<times> error option" where
  "deviceIdExists e conn ident =
     (let (exists, err) = objectIdExists e conn (deviceStoredKey ident)
      in case err of
           Some x \<Rightarrow> (False, Some (NewCommonEdgeX KindDatabaseError
                        ''device existence check by id failed'' (Some x)))
         | None \<Rightarrow> (exists, None))"

text \<open>
  The commands \<open>addDevice\<close> sends between \<open>MULTI\<close> and \<open>EXEC\<close> for the stamped record \<open>d\<close>
  and its serialisation, lines 81 to 88; the loop over the labels is the \<open>foldl\<close>.
\<close>

definition sendAddCommands :: "Conn \<Rightarrow> Device \<Rightarrow> bytes \<Rightarrow> Conn" where
  "sendAddCommands conn0 d dsJSONBytes =
     (let storedKey = deviceStoredKey (Id' d);
          conn = Send conn0 MULTI;
          conn = Send conn (SET storedKey dsJSONBytes);
          conn = Send conn (ZADD DeviceCollection 0 storedKey);
          conn = Send conn (HSET DeviceCollectionName (Name d) storedKey);
          conn = Send conn (ZADD (CreateKey [DeviceCollectionServiceName, ServiceName d])
                              (Modified d) storedKey);
          conn = Send conn (ZADD (CreateKey [DeviceCollectionProfileName, ProfileName d])
                              (Modified d) storedKey)
      in foldl (\<lambda>c label. Send c (ZADD (CreateKey [DeviceCollectionLabel, label])
                                    (Modified d) storedKey))
           conn (Labels d))"

definition addDevice :: "Env \<Rightarrow> Conn \<Rightarrow> Device \<Rightarrow> Conn \<times> Device \<times> error option" where
  "addDevice e conn d0 =
     (let (exists, edgeXerr) = deviceIdExists e conn (Id' d0)
      in case edgeXerr of
           Some x \<Rightarrow> (conn, d0, Some (NewCommonEdgeXWrapper x))
         | None \<Rightarrow>
             if exists
             then (conn, d0, Some (NewCommonEdgeX KindDuplicateName
                     (''device id '' @ Id' d0 @ '' already exists'') None))
             else
               (let (exists, edgeXerr) = deviceNameExists e conn (Name d0)
                in case edgeXerr of
                     Some x \<Rightarrow> (conn, d0, Some (NewCommonEdgeXWrapper x))
                   | None \<Rightarrow>
                       if exists
                       then (conn, d0, Some (NewCommonEdgeX KindDuplicateName
                               (''device name '' @ Name d0 @ '' already exists'') None))
                       else
                         (let ts = MakeTimestamp e;
                              d = (if Created d0 = 0 then d0\<lparr>Created := ts\<rparr> else d0);
                              d = d\<lparr>Modified := ts\<rparr>;
                              (dsJSONBytes, err) = json_Marshal e d
                          in case err of
                               Some x \<Rightarrow> (conn, d, Some (NewCommonEdgeX KindContractInvalid
                                 ''unable to JSON marshal device for Redis persistence'' (Some x)))
                             | None \<Rightarrow>
                                 (let (conn, err) = Do (sendAddCommands conn d dsJSONBytes) EXEC
                                  in case err of
                                       Some x \<Rightarrow> (conn, d, Some (NewCommonEdgeX KindDatabaseError
                                                   ''device creation failed'' (Some x)))
                                     | None \<Rightarrow> (conn, d, None)))))"







text \<open>
  The loop of the three queries: \<open>devices\<close> starts as \<^verbatim>\<open>make([]models.Device, len(objects))\<close>,
  entry \<open>i\<close> is unmarshalled into position \<open>i\<close>, and the first entry that does not parse ends
  the query with an empty slice and a \<open>KindDatabaseError\<close>.
\<close>

fun unmarshalDevices :: "Env \<Rightarrow> nat \<Rightarrow> bytes list \<Rightarrow> Device list \<Rightarrow> Device list \<times> error option" where
  "unmarshalDevices e i [] devices = (devices, None)"
| "unmarshalDevices e i (inp # rest) devices =
     (let (s, err) = json_Unmarshal e inp
      in case err of
           Some x \<Rightarrow> ([], Some (NewCommonEdgeX KindDatabaseError
                       ''device format parsing failed from the database'' (Some x)))
         | None \<Rightarrow> unmarshalDevices e (Suc i) rest (devices[i := s]))"

definition devicesByServiceName ::
  "Env \<Rightarrow> Conn \<Rightarrow> int \<Rightarrow> int \<Rightarrow> string \<Rightarrow> Device list \<times> error option" where
  "devicesByServiceName e conn offset limit name =
     (let end0 = goInt (goInt (offset + limit) - 1);
          end1 = (if limit = - 1 then limit else end0);
          (objects, err) = getObjectsByRevRange e conn
                             (CreateKey [DeviceCollectionServiceName, name]) offset end1
      in case err of
           Some x \<Rightarrow> ([], Some (NewCommonEdgeXWrapper x))
         | None \<Rightarrow> unmarshalDevices e 0 objects (replicate (length objects) zeroDevice))"

definition devicesByLabels ::
  "Env \<Rightarrow> Conn \<Rightarrow> int \<Rightarrow> int \<Rightarrow> string list \<Rightarrow> Device list \<times> error option" where
  "devicesByLabels e conn offset limit labels =
     (let end0 = goInt (goInt (offset + limit) - 1);
          end1 = (if limit = - 1 then limit else end0);
          (objects, edgeXerr) = getObjectsByLabelsAndSomeRange e conn ZREVRANGE
                                  DeviceCollection labels offset end1
      in case edgeXerr of
           Some x \<Rightarrow> ([], Some (NewCommonEdgeXWrapper x))
         | None \<Rightarrow> unmarshalDevices e 0 objects (replicate (length objects) zeroDevice))"

definition devicesByProfileName ::
  "Env \<Rightarrow> Conn \<Rightarrow> int \<Rightarrow> int \<Rightarrow> string \<Rightarrow> Device list \<times> error option" where
  "devicesByProfileName e conn offset limit profileName =
     (let end0 = goInt (goInt (offset + limit) - 1);
          end1 = (if limit = - 1 then limit else end0);
          (objects, err) = getObjectsByRevRange e conn
                             (CreateKey [DeviceCollectionProfileName, profileName]) offset end1
      in case err of
           Some x \<Rightarrow> ([], Some (NewCommonEdgeXWrapper x))
         | None \<Rightarrow> unmarshalDevices e 0 objects (replicate (length objects) zeroDevice))"

subsection \<open>The batches of the specification and other derived notions\<close>

text \<open>
  Step 5 of section 4.2 in the specification's order: the Primary Object Table entry, the
  Id Membership Index at score 0, the Name Uniqueness Index, then the service, profile and
  label buckets at the score \<open>modified\<close>. \<open>d\<close> is the record as stored and \<open>b\<close> its bytes.
\<close>

definition specCreateBatch :: "Device \<Rightarrow> bytes \<Rightarrow> Command list" where
  "specCreateBatch d b =
     [SET (deviceStoredKey (Id' d)) b,
      ZADD DeviceCollection 0 (deviceStoredKey (Id' d)),
      HSET DeviceCollectionName (Name d) (deviceStoredKey (Id' d)),
      ZADD (CreateKey [DeviceCollectionServiceName, ServiceName d]) (Modified d)
        (deviceStoredKey (Id' d)),
      ZADD (CreateKey [DeviceCollectionProfileName, ProfileName d]) (Modified d)
        (deviceStoredKey (Id' d))]
     @ map (\<lambda>label. ZADD (CreateKey [DeviceCollectionLabel, label]) (Modified d)
                       (deviceStoredKey (Id' d)))
         (Labels d)"

text \<open>
  The removal of section 4.3: the Primary Object Table entry, the Id Membership Index, the
  name of the record in the Name Uniqueness Index, then the service, profile and label
  buckets the record names.
\<close>

definition specDeleteBatch :: "Device \<Rightarrow> Command list" where
  "specDeleteBatch d =
     [DEL (deviceStoredKey (Id' d)),
      ZREM DeviceCollection (deviceStoredKey (Id' d)),
      HDEL DeviceCollectionName (Name d),
      ZREM (CreateKey [DeviceCollectionServiceName, ServiceName d]) (deviceStoredKey (Id' d)),
      ZREM (CreateKey [DeviceCollectionProfileName, ProfileName d]) (deviceStoredKey (Id' d))]
     @ map (\<lambda>label. ZREM (CreateKey [DeviceCollectionLabel, label]) (deviceStoredKey (Id' d)))
         (Labels d)"

text \<open>The record as lines 68 to 72 of \<open>addDevice\<close> leave it when the clock reads \<open>ts\<close>.\<close>

definition stamp :: "int \<Rightarrow> Device \<Rightarrow> Device" where
  "stamp ts d = d\<lparr>Created := (if Created d = 0 then ts else Created d), Modified := ts\<rparr>"

text \<open>The end index the three queries compute from offset and limit (lines 162 to 165).\<close>

definition rangeEnd :: "int \<Rightarrow> int \<Rightarrow> int" where
  "rangeEnd offset limit = (if limit = - 1 then limit else goInt (goInt (offset + limit) - 1))"


subsection \<open>The query helpers over the keyspace\<close>

text \<open>
  Modelled from the spec: range-by-rank of section 6, as Redis defines it. Redis addresses a
  range of an ordered listing by rank: both ends are inclusive, a negative
  index counts from the end (\<open>-1\<close> is the last entry), a stop beyond the end is cut to the
  end, and a start beyond the end or after the stop gives the empty range.
\<close>

definition rangeByRank :: "'a list \<Rightarrow> int \<Rightarrow> int \<Rightarrow> 'a list" where
  "rangeByRank xs start stop =
     (let llen = int (length xs);
          start1 = (if start < 0 then llen + start else start);
          stop1 = (if stop < 0 then llen + stop else stop);
          start2 = (if start1 < 0 then 0 else start1)
      in if stop1 < start2 \<or> llen \<le> start2 then []
         else (let stop2 = (if llen \<le> stop1 then llen - 1 else stop1)
               in take (nat (stop2 - start2 + 1)) (drop (nat start2) xs)))"

text \<open>
  Modelled from the spec: the order of an ordered set (section 3: sorted by score). The
  members of an ordered set by ascending score, members of equal score in the order of
  their bytes; \<open>zrevMembers\<close> is the descending listing \<open>ZREVRANGE\<close> counts ranks in.
\<close>

definition zentries :: "Store \<Rightarrow> string \<Rightarrow> (string \<times> int) list" where
  "zentries s k = (case s k of Some (ZSet z) \<Rightarrow> z | other \<Rightarrow> [])"

definition zMembers :: "(string \<times> int) list \<Rightarrow> string list" where
  "zMembers z = map fst (sort_key (\<lambda>p. (snd p, fst p)) z)"

definition zrevMembers :: "(string \<times> int) list \<Rightarrow> string list" where
  "zrevMembers z = rev (zMembers z)"

text \<open>
  Modelled from the spec: the batch fetch of section 5, \<open>MGET\<close>: the string under each key,
  and nil (no bytes) for a key that holds none.
\<close>

definition mget :: "Store \<Rightarrow> string list \<Rightarrow> bytes list" where
  "mget s ks = map (\<lambda>k. case s k of Some (Str v) \<Rightarrow> v | other \<Rightarrow> []) ks"

text \<open>
  Modelled from the spec: the helpers \<^verbatim>\<open>objectIdExists\<close>, \<^verbatim>\<open>objectNameExists\<close>,
  \<^verbatim>\<open>getObjectById\<close>, \<^verbatim>\<open>getObjectByHash\<close>, \<^verbatim>\<open>getObjectsByRevRange\<close> and
  \<^verbatim>\<open>getObjectsByLabelsAndSomeRange\<close> are not among the sources. By sections 4.1, 4.4, 6
  and 7: existence by id is membership of the stored key in the Id Membership Index and
  existence by name is a field of the Name Uniqueness Index; a lookup fetches the Primary
  Object Table entry and decodes it, reporting an absent entry as not found and a record
  that does not decode as contract-invalid; a group query resolves a range of ranks of the
  descending listing of the bucket and fetches the referenced entries; a label query with
  several labels ranges over the members common to all their buckets, and with none over
  the Id Membership Index; an unreachable store is reported as a database error, which
  the two existence helpers leave to their callers in device.go to wrap.
\<close>

definition unreachable :: error where
  "unreachable = CommonEdgeX KindDatabaseError ''query from the database failed''
                   (Some (PlainError ''redis: connection failed''))"

text \<open>The error the lookup helper reports for the stored key \<open>k\<close> when nothing is there.\<close>

definition notFound :: "string \<Rightarrow> error" where
  "notFound k = CommonEdgeX KindEntityDoesNotExist
                  (''id '' @ k @ '' does not exist in the database'') None"

text \<open>
  Modelled from the spec: \<^verbatim>\<open>objectIdExists\<close>, membership of the stored key in the Id
  Membership Index (section 4.1).
\<close>

definition redis_objectIdExists :: "Conn \<Rightarrow> string \<Rightarrow> bool \<times> error option" where
  "redis_objectIdExists conn key =
     (if down conn then (False, Some (PlainError ''redis: connection failed''))
      else (map_of (zentries (db conn) DeviceCollection) key \<noteq> None, None))"

text \<open>
  Modelled from the spec: \<^verbatim>\<open>objectNameExists\<close>, presence of the name as a field of the Name
  Uniqueness Index (section 4.1).
\<close>

definition redis_objectNameExists :: "Conn \<Rightarrow> string \<Rightarrow> string \<Rightarrow> bool \<times> error option" where
  "redis_objectNameExists conn hashKey name =
     (if down conn then (False, Some (PlainError ''redis: connection failed''))
      else (case db conn hashKey of
              Some (Hash h) \<Rightarrow> (map_of h name \<noteq> None, None)
            | other \<Rightarrow> (False, None)))"

text \<open>
  Modelled from the spec: \<^verbatim>\<open>getObjectById\<close>, the fetch by stored key from the Primary Object
  Table, decoded into the out parameter (sections 2 and 7).
\<close>

definition redis_getObjectById ::
  "(bytes \<Rightarrow> Device \<times> error option) \<Rightarrow> Conn \<Rightarrow> string \<Rightarrow> Device \<times> error option" where
  "redis_getObjectById unmarshal conn key =
     (if down conn then (zeroDevice, Some unreachable)
      else (case db conn key of
              Some (Str v) \<Rightarrow>
                (let (out, err) = unmarshal v
                 in case err of
                      Some x \<Rightarrow> (out, Some (CommonEdgeX KindContractInvalid
                                   ''object parsing failed'' (Some x)))
                    | None \<Rightarrow> (out, None))
            | other \<Rightarrow> (zeroDevice, Some (notFound key))))"

text \<open>
  Modelled from the spec: \<^verbatim>\<open>getObjectByHash\<close>, the stored key under the name in the Name
  Uniqueness Index, then the fetch by stored key (sections 2 and 7).
\<close>

definition redis_getObjectByHash ::
  "(bytes \<Rightarrow> Device \<times> error option) \<Rightarrow> Conn \<Rightarrow> string \<Rightarrow> string \<Rightarrow> Device \<times> error option" where
  "redis_getObjectByHash unmarshal conn hashKey field =
     (if down conn then (zeroDevice, Some unreachable)
      else (case db conn hashKey of
              Some (Hash h) \<Rightarrow>
                (case map_of h field of
                   Some key \<Rightarrow> redis_getObjectById unmarshal conn key
                 | None \<Rightarrow> (zeroDevice, Some (CommonEdgeX KindEntityDoesNotExist
                             (''field '' @ field @ '' does not exist in the database'') None)))
            | other \<Rightarrow> (zeroDevice, Some (CommonEdgeX KindEntityDoesNotExist
                          (''field '' @ field @ '' does not exist in the database'') None))))"

text \<open>
  Modelled from the spec: \<^verbatim>\<open>getObjectsByRevRange\<close>, one range read of the descending listing
  and one batch fetch (sections 4.4 and 5).
\<close>

definition redis_getObjectsByRevRange ::
  "Conn \<Rightarrow> string \<Rightarrow> int \<Rightarrow> int \<Rightarrow> bytes list \<times> error option" where
  "redis_getObjectsByRevRange conn key start stop =
     (if down conn then ([], Some unreachable)
      else (mget (db conn) (rangeByRank (zrevMembers (zentries (db conn) key)) start stop), None))"

text \<open>
  Modelled from the spec: the intersection of label buckets (section 4.4): the entries of
  the first bucket whose member is in every other one.
\<close>

definition commonEntries :: "Store \<Rightarrow> string list \<Rightarrow> (string \<times> int) list" where
  "commonEntries s ks =
     (case ks of
        [] \<Rightarrow> []
      | k # rest \<Rightarrow> filter (\<lambda>p. list_all (\<lambda>k'. map_of (zentries s k') (fst p) \<noteq> None) rest)
                     (zentries s k))"

text \<open>
  Modelled from the spec: \<^verbatim>\<open>getObjectsByLabelsAndSomeRange\<close>, the range read over the
  intersection of the label buckets of the collection, or over the Id Membership Index
  when no label is given, then the batch fetch (sections 2 and 4.4).
\<close>

definition redis_getObjectsByLabelsAndSomeRange ::
  "Conn \<Rightarrow> RangeCommand \<Rightarrow> string \<Rightarrow> string list \<Rightarrow> int \<Rightarrow> int \<Rightarrow> bytes list \<times> error option" where
  "redis_getObjectsByLabelsAndSomeRange conn command key labels start stop =
     (if down conn then ([], Some unreachable)
      else (let entries = (if labels = [] then zentries (db conn) key
                           else commonEntries (db conn)
                                  (map (\<lambda>l. CreateKey [key, v2_Label, l]) labels));
                listing = (case command of ZRANGE \<Rightarrow> zMembers entries
                                         | ZREVRANGE \<Rightarrow> zrevMembers entries)
            in (mget (db conn) (rangeByRank listing start stop), None)))"

text \<open>
  The environment of the running service: the helpers above around a clock reading and a
  JSON codec.
\<close>

definition redisEnv ::
  "int \<Rightarrow> (Device \<Rightarrow> bytes \<times> error option) \<Rightarrow> (bytes \<Rightarrow> Device \<times> error option) \<Rightarrow> Env" where
  "redisEnv ts marshal unmarshal =
     \<lparr>MakeTimestamp = ts, json_Marshal = marshal, json_Unmarshal = unmarshal,
      objectIdExists = redis_objectIdExists,
      objectNameExists = redis_objectNameExists,
      getObjectById = redis_getObjectById unmarshal,
      getObjectByHash = redis_getObjectByHash unmarshal,
      getObjectsByRevRange = redis_getObjectsByRevRange,
      getObjectsByLabelsAndSomeRange = redis_getObjectsByLabelsAndSomeRange\<rparr>"

text \<open>
  The full descending listing of a group: the records under the members of the bucket at
  \<open>key\<close>, most recently modified first; and the condition that every one of them decodes.
\<close>

definition groupListing :: "Env \<Rightarrow> Conn \<Rightarrow> string \<Rightarrow> Device list" where
  "groupListing e conn key =
     map (\<lambda>b. fst (json_Unmarshal e b)) (mget (db conn) (zrevMembers (zentries (db conn) key)))"

definition groupDecodes :: "Env \<Rightarrow> Conn \<Rightarrow> string \<Rightarrow> bool" where
  "groupDecodes e conn key =
     list_all (\<lambda>b. snd (json_Unmarshal e b) = None)
       (mget (db conn) (zrevMembers (zentries (db conn) key)))"

subsection \<open>Sample records and a sample store\<close>

text \<open>
  The device of the specification's scenario and a second one of the same service, the
  bytes the codec is taken to produce for them once stamped at \<open>sampleTime\<close>, and a
  connection to an empty keyspace. The sample codec knows these two records; any other
  value is an encoding error and any other text a syntax error.
\<close>

definition sampleTime :: int where
  "sampleTime = 1600000000000"

definition dev1 :: Device where
  "dev1 = \<lparr>Id' = ''d1'', Name = ''therm-1'', ServiceName = ''svc1'', ProfileName = ''prof1'',
     Labels = [''floor1'', ''temp''], Created = 0, Modified = 0\<rparr>"

definition dev2 :: Device where
  "dev2 = \<lparr>Id' = ''d2'', Name = ''therm-2'', ServiceName = ''svc1'', ProfileName = ''prof2'',
     Labels = [''temp''], Created = 5, Modified = 0\<rparr>"

definition stored1 :: Device where
  "stored1 = dev1\<lparr>Created := sampleTime, Modified := sampleTime\<rparr>"

definition stored2 :: Device where
  "stored2 = dev2\<lparr>Modified := sampleTime + 1\<rparr>"

definition json1 :: bytes where
  "json1 = ''{id:d1,name:therm-1,serviceName:svc1,profileName:prof1,labels:[floor1,temp]}''"

definition json2 :: bytes where
  "json2 = ''{id:d2,name:therm-2,serviceName:svc1,profileName:prof2,labels:[temp]}''"

definition sampleMarshal :: "Device \<Rightarrow> bytes \<times> error option" where
  "sampleMarshal d =
     (if d = stored1 then (json1, None)
      else if d = stored2 then (json2, None)
      else ([], Some (PlainError ''json: unsupported value'')))"

definition sampleUnmarshal :: "bytes \<Rightarrow> Device \<times> error option" where
  "sampleUnmarshal b =
     (if b = json1 then (stored1, None)
      else if b = json2 then (stored2, None)
      else (zeroDevice, Some (PlainError ''json: unexpected end of JSON input'')))"

definition sampleEnv :: Env where
  "sampleEnv = redisEnv sampleTime sampleMarshal sampleUnmarshal"

definition emptyConn :: Conn where
  "emptyConn = \<lparr>db = (\<lambda>k. None), multi = None, outbuf = [], sent = [], down = False\<rparr>"

text \<open>The connection after \<open>dev1\<close> was created on the empty keyspace.\<close>

definition conn1 :: Conn where
  "conn1 = fst (addDevice sampleEnv emptyConn dev1)"

text \<open>The connection after \<open>dev2\<close> was created next, one millisecond later.\<close>

definition laterEnv :: Env where
  "laterEnv = sampleEnv\<lparr>MakeTimestamp := sampleTime + 1\<rparr>"

definition conn2 :: Conn where
  "conn2 = fst (addDevice laterEnv conn1 dev2)"

text \<open>A record with a fresh id and the name of \<open>dev1\<close>.\<close>

definition dev9 :: Device where
  "dev9 = dev1\<lparr>Id' := ''d9''\<rparr>"

text \<open>A record the sample codec cannot encode.\<close>

definition dev3 :: Device where
  "dev3 = dev1\<lparr>Id' := ''d3'', Name := ''therm-3''\<rparr>"

text \<open>
  A damaged store: the entry of \<open>d1\<close> overwritten, outside the device store, by bytes that
  do not parse, while the indexes still refer to it.
\<close>

definition badJson :: bytes where
  "badJson = ''{id:d1,''"

definition connBad :: Conn where
  "connBad = fst (Do conn2 (SET (deviceStoredKey ''d1'') badJson))"

section \<open>Properties\<close>

subsection \<open>Sending and executing a batch\<close>

lemma foldl_Send:
  "foldl (\<lambda>c l. Send c (f l)) conn ls
     = conn\<lparr>outbuf := outbuf conn @ map f ls, sent := sent conn @ map f ls\<rparr>"
  by (induction ls arbitrary: conn) (simp_all add: Send_def)

lemma sendAddCommands_eq:
  "sendAddCommands conn d b
     = conn\<lparr>outbuf := outbuf conn @ MULTI # specCreateBatch d b,
            sent := sent conn @ MULTI # specCreateBatch d b\<rparr>"
  by (simp add: sendAddCommands_def specCreateBatch_def Let_def foldl_Send) (simp add: Send_def)


lemma server_queue:
  "list_all (\<lambda>c. c \<noteq> MULTI \<and> c \<noteq> EXEC) cs \<Longrightarrow>
   foldl server (s, Some q) cs = (s, Some (q @ cs))"
proof (induction cs arbitrary: q)
  case Nil
  then show ?case by simp
next
  case (Cons c cs)
  then show ?case by (cases c) simp_all
qed

lemma server_batch:
  assumes "list_all (\<lambda>c. c \<noteq> MULTI \<and> c \<noteq> EXEC) cs"
  shows "foldl server (s, None) (MULTI # cs @ [EXEC]) = (foldl (\<lambda>t c. runCommand c t) s cs, None)"
  using assms by (simp add: server_queue)

lemma specCreateBatch_plain: "list_all (\<lambda>c. c \<noteq> MULTI \<and> c \<noteq> EXEC) (specCreateBatch d b)"
  by (simp add: specCreateBatch_def list_all_iff)


lemma Do_sendAddCommands:
  assumes "outbuf conn = []" and "multi conn = None" and "\<not> down conn"
  shows "Do (sendAddCommands conn d b) EXEC =
           (conn\<lparr>db := foldl (\<lambda>t c. runCommand c t) (db conn) (specCreateBatch d b),
                  multi := None, outbuf := [],
                  sent := sent conn @ MULTI # specCreateBatch d b @ [EXEC]\<rparr>, None)"
  using assms
  by (simp add: Do_def sendAddCommands_eq server_batch [OF specCreateBatch_plain]
        del: foldl_append foldl_Cons)

lemma Do_ok_not_down: "snd (Do conn c) = None \<Longrightarrow> \<not> down conn"
  by (simp add: Do_def Let_def split: if_splits)

lemma down_sendAddCommands: "down (sendAddCommands conn d b) = down conn"
  by (simp add: sendAddCommands_eq)




subsection \<open>The paths through addDevice\<close>

lemma addDevice_cases:
  "addDevice e conn d0 =
     (case snd (deviceIdExists e conn (Id' d0)) of
        Some x \<Rightarrow> (conn, d0, Some (NewCommonEdgeXWrapper x))
      | None \<Rightarrow>
         if fst (deviceIdExists e conn (Id' d0))
         then (conn, d0, Some (NewCommonEdgeX KindDuplicateName
                 (''device id '' @ Id' d0 @ '' already exists'') None))
         else (case snd (deviceNameExists e conn (Name d0)) of
            Some x \<Rightarrow> (conn, d0, Some (NewCommonEdgeXWrapper x))
          | None \<Rightarrow>
             if fst (deviceNameExists e conn (Name d0))
             then (conn, d0, Some (NewCommonEdgeX KindDuplicateName
                     (''device name '' @ Name d0 @ '' already exists'') None))
             else (case snd (json_Marshal e (stamp (MakeTimestamp e) d0)) of
                Some x \<Rightarrow> (conn, stamp (MakeTimestamp e) d0,
                            Some (NewCommonEdgeX KindContractInvalid
                              ''unable to JSON marshal device for Redis persistence'' (Some x)))
              | None \<Rightarrow>
                 (case snd (Do (sendAddCommands conn (stamp (MakeTimestamp e) d0)
                                  (fst (json_Marshal e (stamp (MakeTimestamp e) d0)))) EXEC) of
                    Some x \<Rightarrow>
                      (fst (Do (sendAddCommands conn (stamp (MakeTimestamp e) d0)
                                  (fst (json_Marshal e (stamp (MakeTimestamp e) d0)))) EXEC),
                       stamp (MakeTimestamp e) d0,
                       Some (NewCommonEdgeX KindDatabaseError ''device creation failed'' (Some x)))
                  | None \<Rightarrow>
                      (fst (Do (sendAddCommands conn (stamp (MakeTimestamp e) d0)
                                  (fst (json_Marshal e (stamp (MakeTimestamp e) d0)))) EXEC),
                       stamp (MakeTimestamp e) d0, None)))))"
  by (simp add: addDevice_def stamp_def Let_def split_def split: option.splits)

lemma addDevice_success:
  assumes "addDevice e conn d0 = (conn', d, None)"
  shows "d = stamp (MakeTimestamp e) d0"
    and "snd (json_Marshal e d) = None"
    and "\<not> down conn"
    and "conn' = fst (Do (sendAddCommands conn d (fst (json_Marshal e d))) EXEC)"
  using assms
  by (auto simp add: addDevice_cases prod_eq_iff down_sendAddCommands
        split: option.splits if_splits dest: Do_ok_not_down)

subsection \<open>The loop of the queries\<close>

lemma unmarshalDevices_fail:
  assumes "inp \<in> set objects" and "snd (json_Unmarshal e inp) \<noteq> None"
  shows "fst (unmarshalDevices e i objects devices) = []
         \<and> map_option Kind (snd (unmarshalDevices e i objects devices)) = Some KindDatabaseError"
  using assms
proof (induction objects arbitrary: i devices)
  case Nil
  then show ?case by simp
next
  case (Cons a objects)
  show ?case
  proof (cases "snd (json_Unmarshal e a)")
    case None
    with Cons.prems have "inp \<in> set objects" by auto
    from Cons.IH [OF this Cons.prems(2)] None show ?thesis
      by (simp add: split_def)
  next
    case (Some x)
    then show ?thesis by (simp add: split_def NewCommonEdgeX_def)
  qed
qed

lemma unmarshalDevices_ok:
  assumes "list_all (\<lambda>inp. snd (json_Unmarshal e inp) = None) objects"
      and "length devices = i + length objects"
  shows "unmarshalDevices e i objects devices
           = (take i devices @ map (\<lambda>inp. fst (json_Unmarshal e inp)) objects, None)"
  using assms
proof (induction objects arbitrary: i devices)
  case Nil
  then show ?case by simp
next
  case (Cons a objects)
  from Cons.prems have ok: "snd (json_Unmarshal e a) = None"
    and rest: "list_all (\<lambda>inp. snd (json_Unmarshal e inp) = None) objects"
    and len: "length (devices[i := fst (json_Unmarshal e a)]) = Suc i + length objects"
    and i: "i < length devices"
    by simp_all
  have "take (Suc i) (devices[i := fst (json_Unmarshal e a)])
          = take i devices @ [fst (json_Unmarshal e a)]"
    using i by (simp add: take_Suc_conv_app_nth)
  with Cons.IH [OF rest len] ok show ?case
    by (simp add: split_def)
qed



lemma devicesByServiceName_rangeEnd:
  "devicesByServiceName e conn offset limit name =
     (case getObjectsByRevRange e conn (CreateKey [DeviceCollectionServiceName, name]) offset
             (rangeEnd offset limit) of
        (objects, Some x) \<Rightarrow> ([], Some (NewCommonEdgeXWrapper x))
      | (objects, None) \<Rightarrow> unmarshalDevices e 0 objects (replicate (length objects) zeroDevice))"
  by (simp add: devicesByServiceName_def rangeEnd_def Let_def split: prod.splits option.splits)

lemma devicesByProfileName_rangeEnd:
  "devicesByProfileName e conn offset limit name =
     (case getObjectsByRevRange e conn (CreateKey [DeviceCollectionProfileName, name]) offset
             (rangeEnd offset limit) of
        (objects, Some x) \<Rightarrow> ([], Some (NewCommonEdgeXWrapper x))
      | (objects, None) \<Rightarrow> unmarshalDevices e 0 objects (replicate (length objects) zeroDevice))"
  by (simp add: devicesByProfileName_def rangeEnd_def Let_def split: prod.splits option.splits)

lemma devicesByLabels_rangeEnd:
  "devicesByLabels e conn offset limit labels =
     (case getObjectsByLabelsAndSomeRange e conn ZREVRANGE DeviceCollection labels offset
             (rangeEnd offset limit) of
        (objects, Some x) \<Rightarrow> ([], Some (NewCommonEdgeXWrapper x))
      | (objects, None) \<Rightarrow> unmarshalDevices e 0 objects (replicate (length objects) zeroDevice))"
  by (simp add: devicesByLabels_def rangeEnd_def Let_def split: prod.splits option.splits)

subsection \<open>Ranges of ranks\<close>

lemma goInt_id: "- (2 ^ 63) \<le> x \<Longrightarrow> x < 2 ^ 63 \<Longrightarrow> goInt x = x"
  by (simp add: goInt_def)

lemma goInt_minus_one: "goInt (goInt a - 1) = goInt (a - 1)"
proof -
  have "(goInt a - 1 + 2 ^ 63) mod 2 ^ 64 = (a - 1 + 2 ^ 63) mod (2 ^ 64 :: int)"
    unfolding goInt_def by (simp add: mod_simps)
  then show ?thesis by (simp add: goInt_def)
qed

lemma rangeEnd_zero_zero: "rangeEnd 0 0 = rangeEnd 0 (- 1)"
  by (simp add: rangeEnd_def goInt_def)

lemma rangeEnd_slice:
  "0 \<le> k \<Longrightarrow> 0 \<le> m \<Longrightarrow> k + m - 1 < 2 ^ 63 \<Longrightarrow> rangeEnd k m = k + m - 1"
  by (simp add: rangeEnd_def goInt_minus_one goInt_id)

lemma rangeByRank_rest: "0 \<le> k \<Longrightarrow> rangeByRank xs k (- 1) = drop (nat k) xs"
  by (auto simp add: rangeByRank_def Let_def)

lemma rangeByRank_slice:
  "0 \<le> k \<Longrightarrow> 0 < m \<Longrightarrow> rangeByRank xs k (k + m - 1) = take (nat m) (drop (nat k) xs)"
  by (auto simp add: rangeByRank_def Let_def min_def intro!: take_all [symmetric])

lemma rangeByRank_empty: "0 < k \<Longrightarrow> rangeByRank xs k (k - 1) = []"
  by (auto simp add: rangeByRank_def Let_def)

lemma rangeByRank_page:
  assumes "0 \<le> k"
  shows "rangeByRank xs k (rangeEnd k (- 1)) = take (length xs) (drop (nat k) xs)"
    and "0 < m \<Longrightarrow> k + m - 1 < 2 ^ 63 \<Longrightarrow>
         rangeByRank xs k (rangeEnd k m) = take (nat m) (drop (nat k) xs)"
    and "0 < k \<Longrightarrow> k - 1 < 2 ^ 63 \<Longrightarrow> rangeByRank xs k (rangeEnd k 0) = take 0 (drop (nat k) xs)"
proof -
  show "rangeByRank xs k (rangeEnd k (- 1)) = take (length xs) (drop (nat k) xs)"
    using assms by (simp add: rangeEnd_def rangeByRank_rest)
  show "rangeByRank xs k (rangeEnd k m) = take (nat m) (drop (nat k) xs)"
    if "0 < m" "k + m - 1 < 2 ^ 63"
    using that assms by (simp add: rangeEnd_slice rangeByRank_slice)
  show "rangeByRank xs k (rangeEnd k 0) = take 0 (drop (nat k) xs)"
    if "0 < k" "k - 1 < 2 ^ 63"
    using that rangeEnd_slice [of k 0] by (simp add: rangeByRank_empty)
qed

text \<open>The descending listing of an ordered set runs down the scores.\<close>

lemma zMembers_ascending: "sorted (map snd (sort_key (\<lambda>p. (snd p, fst p)) z))"
proof -
  have "sorted (map (\<lambda>p. (snd p, fst p)) (sort_key (\<lambda>p. (snd p, fst p)) z))"
    by (rule sorted_sort_key)
  then have "sorted_wrt (\<lambda>a b. (snd a, fst a) \<le> (snd b, fst b)) (sort_key (\<lambda>p. (snd p, fst p)) z)"
    by (simp add: sorted_map)
  then have "sorted_wrt (\<lambda>a b. snd a \<le> snd b) (sort_key (\<lambda>p. (snd p, fst p)) z)"
    by (rule sorted_wrt_mono_rel [rotated]) (auto simp add: less_eq_prod_def)
  then show ?thesis by (simp add: sorted_map)
qed

subsection \<open>Pages of a group\<close>

text \<open>
  Over the keyspace helpers, when the store can be reached and every record of the group
  decodes: a query at offset \<open>k\<close> returns the listing from rank \<open>k\<close> on for limit \<open>-1\<close>,
  its first \<open>m\<close> records from rank \<open>k\<close> on for a limit \<open>m > 0\<close> whose end index fits
  an int, and nothing for limit \<open>0\<close> at an offset \<open>k > 0\<close>.
\<close>

lemma list_all_take_drop: "list_all P xs \<Longrightarrow> list_all P (take n (drop k xs))"
  by (metis append_take_drop_id list_all_append)

lemma unmarshal_page:
  assumes "list_all (\<lambda>b. snd (json_Unmarshal e b) = None) (mget s ks)"
  shows "unmarshalDevices e 0 (mget s (take n (drop k ks)))
           (replicate (length (mget s (take n (drop k ks)))) zeroDevice)
         = (take n (drop k (map (\<lambda>b. fst (json_Unmarshal e b)) (mget s ks))), None)"
proof -
  have eq: "mget s (take n (drop k ks)) = take n (drop k (mget s ks))"
    by (simp add: mget_def take_map drop_map)
  have "list_all (\<lambda>b. snd (json_Unmarshal e b) = None) (take n (drop k (mget s ks)))"
    by (rule list_all_take_drop [OF assms])
  then show ?thesis
    unfolding eq by (subst unmarshalDevices_ok) (simp_all add: take_map drop_map)
qed

lemma revRange_page:
  assumes "getObjectsByRevRange e = redis_getObjectsByRevRange" and "\<not> down conn"
      and "groupDecodes e conn key"
      and "rangeByRank (zrevMembers (zentries (db conn) key)) k stop
             = take n (drop j (zrevMembers (zentries (db conn) key)))"
  shows "(case getObjectsByRevRange e conn key k stop of
            (objects, Some x) \<Rightarrow> ([], Some (NewCommonEdgeXWrapper x))
          | (objects, None) \<Rightarrow> unmarshalDevices e 0 objects (replicate (length objects) zeroDevice))
         = (take n (drop j (groupListing e conn key)), None)"
proof -
  have "getObjectsByRevRange e conn key k stop
          = (mget (db conn) (take n (drop j (zrevMembers (zentries (db conn) key)))), None)"
    using assms(1,2,4) by (simp add: redis_getObjectsByRevRange_def)
  moreover have "unmarshalDevices e 0
           (mget (db conn) (take n (drop j (zrevMembers (zentries (db conn) key)))))
           (replicate (length (mget (db conn) (take n (drop j (zrevMembers (zentries (db conn) key))))))
              zeroDevice)
         = (take n (drop j (groupListing e conn key)), None)"
    unfolding groupListing_def
    by (rule unmarshal_page) (use assms(3) in \<open>simp add: groupDecodes_def\<close>)
  ultimately show ?thesis by simp
qed

lemma devicesByServiceName_page:
  assumes "getObjectsByRevRange e = redis_getObjectsByRevRange" and "\<not> down conn"
      and "groupDecodes e conn (CreateKey [DeviceCollectionServiceName, name])"
      and "0 \<le> k"
  shows "devicesByServiceName e conn k (- 1) name
           = (drop (nat k) (groupListing e conn (CreateKey [DeviceCollectionServiceName, name])), None)"
    and "0 < m \<Longrightarrow> k + m - 1 < 2 ^ 63 \<Longrightarrow>
         devicesByServiceName e conn k m name
           = (take (nat m) (drop (nat k)
                (groupListing e conn (CreateKey [DeviceCollectionServiceName, name]))), None)"
    and "0 < k \<Longrightarrow> k - 1 < 2 ^ 63 \<Longrightarrow> devicesByServiceName e conn k 0 name = ([], None)"
proof -
  note page = revRange_page [OF assms(1-3)]
  show "devicesByServiceName e conn k (- 1) name
           = (drop (nat k) (groupListing e conn (CreateKey [DeviceCollectionServiceName, name])), None)"
    unfolding devicesByServiceName_rangeEnd
    by (subst page [OF rangeByRank_page(1) [OF assms(4)]]) (simp add: groupListing_def mget_def)
  show "devicesByServiceName e conn k m name
           = (take (nat m) (drop (nat k)
                (groupListing e conn (CreateKey [DeviceCollectionServiceName, name]))), None)"
    if "0 < m" "k + m - 1 < 2 ^ 63"
    unfolding devicesByServiceName_rangeEnd
    by (subst page [OF rangeByRank_page(2) [OF assms(4) that]]) simp
  show "devicesByServiceName e conn k 0 name = ([], None)"
    if "0 < k" "k - 1 < 2 ^ 63"
    unfolding devicesByServiceName_rangeEnd
    by (subst page [OF rangeByRank_page(3) [OF assms(4) that]]) simp
qed

lemma devicesByProfileName_page:
  assumes "getObjectsByRevRange e = redis_getObjectsByRevRange" and "\<not> down conn"
      and "groupDecodes e conn (CreateKey [DeviceCollectionProfileName, name])"
      and "0 \<le> k"
  shows "devicesByProfileName e conn k (- 1) name
           = (drop (nat k) (groupListing e conn (CreateKey [DeviceCollectionProfileName, name])), None)"
    and "0 < m \<Longrightarrow> k + m - 1 < 2 ^ 63 \<Longrightarrow>
         devicesByProfileName e conn k m name
           = (take (nat m) (drop (nat k)
                (groupListing e conn (CreateKey [DeviceCollectionProfileName, name]))), None)"
    and "0 < k \<Longrightarrow> k - 1 < 2 ^ 63 \<Longrightarrow> devicesByProfileName e conn k 0 name = ([], None)"
proof -
  note page = revRange_page [OF assms(1-3)]
  show "devicesByProfileName e conn k (- 1) name
           = (drop (nat k) (groupListing e conn (CreateKey [DeviceCollectionProfileName, name])), None)"
    unfolding devicesByProfileName_rangeEnd
    by (subst page [OF rangeByRank_page(1) [OF assms(4)]]) (simp add: groupListing_def mget_def)
  show "devicesByProfileName e conn k m name
           = (take (nat m) (drop (nat k)
                (groupListing e conn (CreateKey [DeviceCollectionProfileName, name]))), None)"
    if "0 < m" "k + m - 1 < 2 ^ 63"
    unfolding devicesByProfileName_rangeEnd
    by (subst page [OF rangeByRank_page(2) [OF assms(4) that]]) simp
  show "devicesByProfileName e conn k 0 name = ([], None)"
    if "0 < k" "k - 1 < 2 ^ 63"
    unfolding devicesByProfileName_rangeEnd
    by (subst page [OF rangeByRank_page(3) [OF assms(4) that]]) simp
qed

subsection \<open>What an index command leaves alone\<close>




subsection \<open>The sample store, evaluated\<close>

lemma sample_create1: "addDevice sampleEnv emptyConn dev1 = (conn1, stored1, None)"
proof -
  have "fst (snd (addDevice sampleEnv emptyConn dev1)) = stored1"
    and "snd (snd (addDevice sampleEnv emptyConn dev1)) = None"
    by code_simp+
  then show ?thesis by (simp add: conn1_def prod_eq_iff)
qed

lemma sample_create2: "addDevice laterEnv conn1 dev2 = (conn2, stored2, None)"
proof -
  have "fst (snd (addDevice laterEnv conn1 dev2)) = stored2"
    and "snd (snd (addDevice laterEnv conn1 dev2)) = None"
    by code_simp+
  then show ?thesis by (simp add: conn2_def prod_eq_iff)
qed

lemma sample_idle:
  "outbuf emptyConn = []" "multi emptyConn = None" "\<not> down emptyConn"
  "outbuf conn1 = []" "multi conn1 = None" "\<not> down conn1"
  by code_simp+

lemma sample_exists:
  "objectIdExists sampleEnv emptyConn (deviceStoredKey (Id' dev1)) = (False, None)"
  "objectNameExists sampleEnv emptyConn DeviceCollectionName (Name dev1) = (False, None)"
  "objectIdExists laterEnv conn1 (deviceStoredKey (Id' dev2)) = (False, None)"
  "objectNameExists laterEnv conn1 DeviceCollectionName (Name dev2) = (False, None)"
  "objectIdExists sampleEnv conn1 (deviceStoredKey (Id' dev1)) = (True, None)"
  "objectIdExists sampleEnv conn1 (deviceStoredKey (Id' dev9)) = (False, None)"
  "objectNameExists sampleEnv conn1 DeviceCollectionName (Name dev9) = (True, None)"
  "objectIdExists sampleEnv conn1 (deviceStoredKey (Id' dev3)) = (False, None)"
  "objectNameExists sampleEnv conn1 DeviceCollectionName (Name dev3) = (False, None)"
  by code_simp+


lemma sample_batches:
  "MULTI # specCreateBatch stored1 json1 @ [EXEC]
     = [MULTI, SET ''md|dv:d1'' json1, ZADD ''md|dv'' 0 ''md|dv:d1'',
        HSET ''md|dv:name'' ''therm-1'' ''md|dv:d1'',
        ZADD ''md|dv:service:name:svc1'' 1600000000000 ''md|dv:d1'',
        ZADD ''md|dv:profile:name:prof1'' 1600000000000 ''md|dv:d1'',
        ZADD ''md|dv:label:floor1'' 1600000000000 ''md|dv:d1'',
        ZADD ''md|dv:label:temp'' 1600000000000 ''md|dv:d1'', EXEC]"
  "MULTI # specDeleteBatch stored1 @ [EXEC]
     = [MULTI, DEL ''md|dv:d1'', ZREM ''md|dv'' ''md|dv:d1'', HDEL ''md|dv:name'' ''therm-1'',
        ZREM ''md|dv:service:name:svc1'' ''md|dv:d1'',
        ZREM ''md|dv:profile:name:prof1'' ''md|dv:d1'',
        ZREM ''md|dv:label:floor1'' ''md|dv:d1'',
        ZREM ''md|dv:label:temp'' ''md|dv:d1'', EXEC]"
  by code_simp+

lemma sample_codec:
  "json_Marshal sampleEnv stored1 = (json1, None)"
  "json_Unmarshal sampleEnv json1 = (stored1, None)"
  "snd (json_Unmarshal sampleEnv badJson) \<noteq> None"
  "json_Marshal sampleEnv (dev3\<lparr>Created := sampleTime, Modified := sampleTime\<rparr>)
     = ([], Some (PlainError ''json: unsupported value''))"
  "MakeTimestamp sampleEnv = sampleTime" "MakeTimestamp laterEnv = sampleTime + 1"
  "getObjectById sampleEnv = redis_getObjectById (json_Unmarshal sampleEnv)"
  by (simp_all add: sampleEnv_def laterEnv_def redisEnv_def sampleMarshal_def sampleUnmarshal_def
        json1_def json2_def badJson_def dev3_def dev1_def dev2_def stored1_def stored2_def
        sampleTime_def)

lemma sample_damaged:
  "getObjectsByRevRange sampleEnv connBad (CreateKey [DeviceCollectionServiceName, ''svc1'']) 0
     (rangeEnd 0 (- 1)) = ([json2, badJson], None)"
  "getObjectsByRevRange sampleEnv connBad (CreateKey [DeviceCollectionProfileName, ''prof1'']) 0
     (rangeEnd 0 5) = ([badJson], None)"
  "getObjectsByLabelsAndSomeRange sampleEnv connBad ZREVRANGE DeviceCollection [''temp''] 0
     (rangeEnd 0 (- 1)) = ([json2, badJson], None)"
  by code_simp+

subsection \<open>Create\<close>

text \<open>
  C1. A create that succeeds hands the connection exactly one batch: \<open>MULTI\<close>, the commands
  of step 5 of section 4.2 for the stamped record \<open>d\<close> (the write of the Primary Object
  Table entry at the stored key of \<open>d\<close>, the stored key in the Id Membership Index at score
  0, name to stored key in the Name Uniqueness Index, the stored key at score \<open>Modified d\<close>
  in the service bucket, the profile bucket and one label bucket per label of \<open>d\<close>), then
  \<open>EXEC\<close>; nothing else is sent, and on a connection with nothing pending the keyspace
  changes by exactly these commands, run in order.
\<close>

theorem addDevice_issues_one_batch:
  assumes "addDevice e conn d0 = (conn', d, None)" and "outbuf conn = []" and "multi conn = None"
  shows "d = d0\<lparr>Created := (if Created d0 = 0 then MakeTimestamp e else Created d0),
                Modified := MakeTimestamp e\<rparr>
         \<and> sent conn' = sent conn @ MULTI # specCreateBatch d (fst (json_Marshal e d)) @ [EXEC]
         \<and> db conn' = foldl (\<lambda>t c. runCommand c t) (db conn)
                        (specCreateBatch d (fst (json_Marshal e d)))"
proof -
  note s = addDevice_success [OF assms(1)]
  have "conn' = fst (Do (sendAddCommands conn d (fst (json_Marshal e d))) EXEC)"
    by (rule s(4))
  also have "\<dots> = conn\<lparr>db := foldl (\<lambda>t c. runCommand c t) (db conn)
                               (specCreateBatch d (fst (json_Marshal e d))),
                  multi := None, outbuf := [],
                  sent := sent conn @ MULTI # specCreateBatch d (fst (json_Marshal e d)) @ [EXEC]\<rparr>"
    using Do_sendAddCommands [OF assms(2,3) s(3)] by simp
  finally show ?thesis using s(1) by (simp add: stamp_def)
qed

theorem addDevice_issues_one_batch_witness:
  "addDevice sampleEnv emptyConn dev1 = (conn1, stored1, None)
   \<and> outbuf emptyConn = [] \<and> multi emptyConn = None
   \<and> sent conn1
       = [MULTI, SET ''md|dv:d1'' json1, ZADD ''md|dv'' 0 ''md|dv:d1'',
          HSET ''md|dv:name'' ''therm-1'' ''md|dv:d1'',
          ZADD ''md|dv:service:name:svc1'' 1600000000000 ''md|dv:d1'',
          ZADD ''md|dv:profile:name:prof1'' 1600000000000 ''md|dv:d1'',
          ZADD ''md|dv:label:floor1'' 1600000000000 ''md|dv:d1'',
          ZADD ''md|dv:label:temp'' 1600000000000 ''md|dv:d1'', EXEC]"
proof -
  have "sent emptyConn = []" by (simp add: emptyConn_def)
  with addDevice_issues_one_batch [OF sample_create1 sample_idle(1,2)]
  show ?thesis
    by (simp add: sample_create1 sample_idle sample_codec sample_batches [symmetric]
          del: append_Cons)
qed

text \<open>
  C4, as the code has it. A record whose id is reported present fails with the kind
  \<open>KindDuplicateName\<close> and the message that the device id exists: device.go has one
  kind for both duplicates. A record with a fresh id whose name is reported present fails
  with \<open>KindDuplicateName\<close> and the message that the device name exists.
\<close>

theorem addDevice_duplicate_kind:
  "(objectIdExists e conn (deviceStoredKey (Id' d0)) = (True, None) \<longrightarrow>
      snd (snd (addDevice e conn d0))
        = Some (CommonEdgeX KindDuplicateName (''device id '' @ Id' d0 @ '' already exists'') None))
   \<and> (objectIdExists e conn (deviceStoredKey (Id' d0)) = (False, None)
        \<and> objectNameExists e conn DeviceCollectionName (Name d0) = (True, None) \<longrightarrow>
      snd (snd (addDevice e conn d0))
        = Some (CommonEdgeX KindDuplicateName
                  (''device name '' @ Name d0 @ '' already exists'') None))"
  by (auto simp add: addDevice_cases deviceIdExists_def deviceNameExists_def NewCommonEdgeX_def)

theorem addDevice_duplicate_kind_witness:
  "objectIdExists sampleEnv conn1 (deviceStoredKey (Id' dev1)) = (True, None)
   \<and> snd (snd (addDevice sampleEnv conn1 dev1))
       = Some (CommonEdgeX KindDuplicateName ''device id d1 already exists'' None)
   \<and> objectIdExists sampleEnv conn1 (deviceStoredKey (Id' dev9)) = (False, None)
   \<and> objectNameExists sampleEnv conn1 DeviceCollectionName (Name dev9) = (True, None)
   \<and> snd (snd (addDevice sampleEnv conn1 dev9))
       = Some (CommonEdgeX KindDuplicateName ''device name therm-1 already exists'' None)"
proof -
  have m1: "''device id '' @ Id' dev1 @ '' already exists'' = ''device id d1 already exists''"
    and m2: "''device name '' @ Name dev9 @ '' already exists''
               = ''device name therm-1 already exists''"
    by (simp_all add: dev1_def dev9_def)
  from addDevice_duplicate_kind [of sampleEnv conn1 dev1]
  have f1: "snd (snd (addDevice sampleEnv conn1 dev1))
          = Some (CommonEdgeX KindDuplicateName ''device id d1 already exists'' None)"
    unfolding m1 by (simp only: sample_exists simp_thms)
  from addDevice_duplicate_kind [of sampleEnv conn1 dev9]
  have f2: "snd (snd (addDevice sampleEnv conn1 dev9))
          = Some (CommonEdgeX KindDuplicateName ''device name therm-1 already exists'' None)"
    unfolding m2 by (simp only: sample_exists simp_thms)
  show ?thesis
    by (simp only: f1 f2 sample_exists simp_thms)
qed

text \<open>
  C4, as the claim states it, fails: \<open>dev1\<close> is stored in \<open>conn1\<close>, creating it again
  fails, and the kind of the failure is the duplicate-name kind, not a duplicate-id kind.
\<close>

theorem addDevice_duplicate_id_counterexample:
  "objectIdExists sampleEnv conn1 (deviceStoredKey (Id' dev1)) = (True, None)
   \<and> snd (snd (addDevice sampleEnv conn1 dev1))
       = Some (CommonEdgeX KindDuplicateName ''device id d1 already exists'' None)
   \<and> specKind (Kind (CommonEdgeX KindDuplicateName ''device id d1 already exists'' None))
       = Some DuplicateName
   \<and> specKind (Kind (CommonEdgeX KindDuplicateName ''device id d1 already exists'' None))
       \<noteq> Some DuplicateId"
  by code_simp

text \<open>
  C5. When the id or the name of the record is reported present, the create fails and
  returns the connection as it received it: keyspace, pending commands and the log of
  commands sent are all unchanged, and the record comes back as it was passed.
\<close>

theorem addDevice_duplicate_unchanged:
  assumes "objectIdExists e conn (deviceStoredKey (Id' d0)) = (True, None)
           \<or> objectNameExists e conn DeviceCollectionName (Name d0) = (True, None)"
  shows "fst (addDevice e conn d0) = conn \<and> fst (snd (addDevice e conn d0)) = d0
         \<and> snd (snd (addDevice e conn d0)) \<noteq> None"
  using assms
  by (auto simp add: addDevice_cases deviceIdExists_def deviceNameExists_def split_def
        split: option.splits)

theorem addDevice_duplicate_unchanged_witness:
  "objectIdExists sampleEnv conn1 (deviceStoredKey (Id' dev1)) = (True, None)
   \<and> objectNameExists sampleEnv conn1 DeviceCollectionName (Name dev9) = (True, None)
   \<and> fst (addDevice sampleEnv conn1 dev1) = conn1
   \<and> snd (snd (addDevice sampleEnv conn1 dev1)) \<noteq> None
   \<and> fst (addDevice sampleEnv conn1 dev9) = conn1
   \<and> snd (snd (addDevice sampleEnv conn1 dev9)) \<noteq> None"
proof -
  have "objectIdExists sampleEnv conn1 (deviceStoredKey (Id' dev1)) = (True, None)
        \<or> objectNameExists sampleEnv conn1 DeviceCollectionName (Name dev1) = (True, None)"
    by (simp only: sample_exists simp_thms)
  note a = addDevice_duplicate_unchanged [OF this]
  have "objectIdExists sampleEnv conn1 (deviceStoredKey (Id' dev9)) = (True, None)
        \<or> objectNameExists sampleEnv conn1 DeviceCollectionName (Name dev9) = (True, None)"
    by (simp only: sample_exists simp_thms)
  note b = addDevice_duplicate_unchanged [OF this]
  from a b show ?thesis by (simp only: sample_exists simp_thms)
qed

text \<open>
  C7. For a record that passes the two duplicate checks, the record returned (the one that
  is serialised and stored) has \<open>Created\<close> set to the clock reading when it was zero and
  kept when it was not, and \<open>Modified\<close> set to the clock reading whatever it was.
\<close>

theorem addDevice_timestamps:
  assumes "objectIdExists e conn (deviceStoredKey (Id' d0)) = (False, None)"
      and "objectNameExists e conn DeviceCollectionName (Name d0) = (False, None)"
  shows "Created (fst (snd (addDevice e conn d0)))
           = (if Created d0 = 0 then MakeTimestamp e else Created d0)
         \<and> Modified (fst (snd (addDevice e conn d0))) = MakeTimestamp e"
  using assms
  by (auto simp add: addDevice_cases deviceIdExists_def deviceNameExists_def stamp_def
        split: option.splits)

theorem addDevice_timestamps_witness:
  "Created dev1 = 0
   \<and> Created (fst (snd (addDevice sampleEnv emptyConn dev1))) = 1600000000000
   \<and> Modified (fst (snd (addDevice sampleEnv emptyConn dev1))) = 1600000000000
   \<and> Created dev2 = 5
   \<and> Created (fst (snd (addDevice laterEnv conn1 dev2))) = 5
   \<and> Modified (fst (snd (addDevice laterEnv conn1 dev2))) = 1600000000001"
  using addDevice_timestamps [OF sample_exists(1,2)] addDevice_timestamps [OF sample_exists(3,4)]
  by (simp add: sample_codec) (simp add: dev1_def dev2_def sampleTime_def)

text \<open>
  C10. When both duplicate checks pass and the stamped record does not serialise, the
  create returns the kind \<open>KindContractInvalid\<close> around the codec's error, and the
  connection as it received it: nothing was sent, nothing is pending, the keyspace is the
  same.
\<close>

theorem addDevice_marshal_failure:
  assumes "objectIdExists e conn (deviceStoredKey (Id' d0)) = (False, None)"
      and "objectNameExists e conn DeviceCollectionName (Name d0) = (False, None)"
      and "json_Marshal e (d0\<lparr>Created := (if Created d0 = 0 then MakeTimestamp e else Created d0),
                              Modified := MakeTimestamp e\<rparr>) = (b, Some x)"
  shows "addDevice e conn d0
           = (conn,
              d0\<lparr>Created := (if Created d0 = 0 then MakeTimestamp e else Created d0),
                  Modified := MakeTimestamp e\<rparr>,
              Some (CommonEdgeX KindContractInvalid
                      ''unable to JSON marshal device for Redis persistence'' (Some x)))"
  using assms
  by (simp add: addDevice_cases deviceIdExists_def deviceNameExists_def stamp_def
        NewCommonEdgeX_def)

theorem addDevice_marshal_failure_witness:
  "objectIdExists sampleEnv conn1 (deviceStoredKey (Id' dev3)) = (False, None)
   \<and> objectNameExists sampleEnv conn1 DeviceCollectionName (Name dev3) = (False, None)
   \<and> addDevice sampleEnv conn1 dev3
       = (conn1, dev3\<lparr>Created := sampleTime, Modified := sampleTime\<rparr>,
          Some (CommonEdgeX KindContractInvalid
                  ''unable to JSON marshal device for Redis persistence''
                  (Some (PlainError ''json: unsupported value''))))"
proof -
  have zero: "Created dev3 = 0" by (simp add: dev3_def dev1_def)
  have "json_Marshal sampleEnv
          (dev3\<lparr>Created := (if Created dev3 = 0 then MakeTimestamp sampleEnv else Created dev3),
                 Modified := MakeTimestamp sampleEnv\<rparr>)
        = ([], Some (PlainError ''json: unsupported value''))"
    using zero by (simp add: sample_codec)
  from addDevice_marshal_failure [OF sample_exists(8,9) this] zero
  show ?thesis by (simp add: sample_exists sample_codec)
qed




subsection \<open>Delete\<close>



subsection \<open>Queries\<close>

text \<open>
  C6. In each of the three queries, when the helper returned its objects without error and
  one of them, wherever it stands, does not unmarshal, the query returns the empty list
  and an error of kind \<open>KindDatabaseError\<close>: no record parsed before it is returned.
\<close>

theorem query_decode_failure:
  assumes "inp \<in> set objects" and "snd (json_Unmarshal e inp) \<noteq> None"
  shows "(getObjectsByRevRange e conn (CreateKey [DeviceCollectionServiceName, name]) offset
            (rangeEnd offset limit) = (objects, None) \<longrightarrow>
          fst (devicesByServiceName e conn offset limit name) = []
          \<and> map_option Kind (snd (devicesByServiceName e conn offset limit name))
              = Some KindDatabaseError)
       \<and> (getObjectsByRevRange e conn (CreateKey [DeviceCollectionProfileName, name]) offset
            (rangeEnd offset limit) = (objects, None) \<longrightarrow>
          fst (devicesByProfileName e conn offset limit name) = []
          \<and> map_option Kind (snd (devicesByProfileName e conn offset limit name))
              = Some KindDatabaseError)
       \<and> (getObjectsByLabelsAndSomeRange e conn ZREVRANGE DeviceCollection labels offset
            (rangeEnd offset limit) = (objects, None) \<longrightarrow>
          fst (devicesByLabels e conn offset limit labels) = []
          \<and> map_option Kind (snd (devicesByLabels e conn offset limit labels))
              = Some KindDatabaseError)"
  using unmarshalDevices_fail [OF assms]
  by (simp add: devicesByServiceName_rangeEnd devicesByProfileName_rangeEnd
        devicesByLabels_rangeEnd)

theorem query_decode_failure_witness:
  "snd (json_Unmarshal sampleEnv badJson) \<noteq> None
   \<and> getObjectsByRevRange sampleEnv connBad (CreateKey [DeviceCollectionServiceName, ''svc1'']) 0
       (rangeEnd 0 (- 1)) = ([json2, badJson], None)
   \<and> devicesByServiceName sampleEnv connBad 0 (- 1) ''svc1''
       = ([], Some (CommonEdgeX KindDatabaseError ''device format parsing failed from the database''
                     (Some (PlainError ''json: unexpected end of JSON input''))))
   \<and> getObjectsByRevRange sampleEnv connBad (CreateKey [DeviceCollectionProfileName, ''prof1'']) 0
       (rangeEnd 0 5) = ([badJson], None)
   \<and> fst (devicesByProfileName sampleEnv connBad 0 5 ''prof1'') = []
   \<and> map_option Kind (snd (devicesByProfileName sampleEnv connBad 0 5 ''prof1''))
       = Some KindDatabaseError
   \<and> getObjectsByLabelsAndSomeRange sampleEnv connBad ZREVRANGE DeviceCollection [''temp''] 0
       (rangeEnd 0 (- 1)) = ([json2, badJson], None)
   \<and> fst (devicesByLabels sampleEnv connBad 0 (- 1) [''temp'']) = []
   \<and> map_option Kind (snd (devicesByLabels sampleEnv connBad 0 (- 1) [''temp'']))
       = Some KindDatabaseError"
proof -
  have whole: "devicesByServiceName sampleEnv connBad 0 (- 1) ''svc1''
       = ([], Some (CommonEdgeX KindDatabaseError ''device format parsing failed from the database''
                     (Some (PlainError ''json: unexpected end of JSON input''))))"
    by code_simp
  have m2: "badJson \<in> set [json2, badJson]" and m1: "badJson \<in> set [badJson]"
    by simp_all
  note a = query_decode_failure [OF m2 sample_codec(3),
             of connBad "''svc1''" 0 "- 1" "[''temp'']"]
  note b = query_decode_failure [OF m1 sample_codec(3), of connBad "''prof1''" 0 5 "[]"]
  from a b show ?thesis
    by (simp only: sample_damaged sample_codec(3) whole simp_thms)
qed

text \<open>
  C3. What the code does at offset 0 with limit 0. For every environment and connection
  the end index of each query is then \<open>-1\<close>, the index it uses for limit \<open>-1\<close>, so the query
  is the query for all remaining records; on the sample store, where the service group
  \<open>svc1\<close> holds two records, it returns both of them and not the empty page.
\<close>

theorem zero_limit_returns_whole_group:
  "devicesByServiceName e conn 0 0 name = devicesByServiceName e conn 0 (- 1) name
   \<and> devicesByProfileName e conn 0 0 name = devicesByProfileName e conn 0 (- 1) name
   \<and> devicesByLabels e conn 0 0 labels = devicesByLabels e conn 0 (- 1) labels
   \<and> devicesByServiceName sampleEnv conn2 0 (- 1) ''svc1'' = ([stored2, stored1], None)
   \<and> devicesByServiceName sampleEnv conn2 0 0 ''svc1'' = ([stored2, stored1], None)"
proof -
  have "devicesByServiceName sampleEnv conn2 0 (- 1) ''svc1'' = ([stored2, stored1], None)"
    by code_simp
  then show ?thesis
    by (simp only: devicesByServiceName_rangeEnd devicesByProfileName_rangeEnd
          devicesByLabels_rangeEnd rangeEnd_zero_zero simp_thms)
qed

subsection \<open>Keys\<close>



end
